theory Spec2Isabelle
  imports Main
begin

section \<open>JavaScript values\<close>

text \<open>
  The map visualization is JavaScript: the values of the settings dictionary, the column
  metadata and whatever the mapping library throws are dynamically typed. \<open>jsval\<close> holds
  the values the code can tell apart: the code only asks whether a value is truthy,
  whether it is strictly equal to another one, and what its \<open>message\<close> property is.
  Numbers are integers plus \<open>NaN\<close> (all the code observes of a number is whether it is
  zero or \<open>NaN\<close>, and its identity); an object is a reference with its properties.
\<close>

datatype jsval =
    JUndefined
  | JNull
  | JBool bool
  | JNum int
  | JNaN
  | JStr string
  | JObj nat "(string \<times> jsval) list"

text \<open>JavaScript's ToBoolean: what \<open>!v\<close>, \<open>v && w\<close> and \<open>v || w\<close> test.\<close>

fun truthy :: "jsval \<Rightarrow> bool" where
  "truthy JUndefined = False"
| "truthy JNull = False"
| "truthy (JBool b) = b"
| "truthy (JNum n) = (n \<noteq> 0)"
| "truthy JNaN = False"
| "truthy (JStr s) = (s \<noteq> [])"
| "truthy (JObj r ps) = True"

text \<open>\<open>a === b\<close>: \<open>NaN\<close> equals nothing, objects are compared by reference.\<close>

fun strict_eq :: "jsval \<Rightarrow> jsval \<Rightarrow> bool" where
  "strict_eq JNaN b = False"
| "strict_eq a JNaN = False"
| "strict_eq (JObj r ps) (JObj r' ps') = (r = r')"
| "strict_eq a b = (a = b)"

text \<open>
  A settings object is a dictionary from setting ids to values; \<open>settings["k"]\<close> of a
  key that is not there is \<open>undefined\<close>.
\<close>

type_synonym settings = "string \<rightharpoonup> jsval"

definition js_get :: "settings \<Rightarrow> string \<Rightarrow> jsval" where
  "js_get obj k = (case obj k of None \<Rightarrow> JUndefined | Some v \<Rightarrow> v)"

text \<open>What the code can throw: the engine's TypeError (reading a property of
  \<open>undefined\<close> or \<open>null\<close>), the typed chart-settings error with its message and
  section, and a value thrown by the mapping library.\<close>

datatype error =
    TypeError
  | ChartSettingsError string string
  | Thrown jsval

section \<open>Map.jsx: the data the visualization receives\<close>

text \<open>
  A series is an array of single series, each a card and its data; the data has the
  columns and the rows of the query result. Of a card the code reads \<open>display\<close>, of a
  column \<open>name\<close> and \<open>binning_info\<close>.
\<close>

record column =
  name :: string
  binning_info :: jsval

record dataset_data =
  cols :: "column list"
  rows :: "jsval list list"

record card_t =
  display :: string

record single_series =
  card' :: card_t
  data :: dataset_data

type_synonym series = "single_series list"

text \<open>\<open>const PIN_MAP_TYPES = new Set(["pin", "heat", "grid"])\<close> and \<open>Set.prototype.has\<close>.\<close>

definition PIN_MAP_TYPES :: "jsval list" where
  "PIN_MAP_TYPES = [JStr ''pin'', JStr ''heat'', JStr ''grid'']"

definition Set_has :: "jsval list \<Rightarrow> jsval \<Rightarrow> bool" where
  "Set_has s v = (v \<in> set s)"

section \<open>Map.checkRenderable\<close>

text \<open>
  \<open>static checkRenderable([{ data: { cols, rows} }], settings)\<close>: the parameter pattern
  reads \<open>data\<close> of the first element of the series, so an empty series raises a
  TypeError before the body runs.
\<close>

fun checkRenderable :: "series \<Rightarrow> settings \<Rightarrow> error + unit" where
  "checkRenderable [] settings = Inl TypeError"
| "checkRenderable (s # rest) settings =
     (if Set_has PIN_MAP_TYPES (js_get settings ''map.type'') then
        (if \<not> truthy (js_get settings ''map.longitude_column'')
            \<or> \<not> truthy (js_get settings ''map.latitude_column'')
         then Inl (ChartSettingsError
                ''Please select longitude and latitude columns in the chart settings.'' ''Data'')
         else Inr ())
      else if js_get settings ''map.type'' = JStr ''region'' then
        (if \<not> truthy (js_get settings ''map.dimension'')
            \<or> \<not> truthy (js_get settings ''map.metric'')
         then Inl (ChartSettingsError
                ''Please select region and metric columns in the chart settings.'' ''Data'')
         else Inr ())
      else Inr ())"

section \<open>The settings schema: default values\<close>

text \<open>
  \<open>_.findWhere(cols, { name: v })\<close> of the underscore library: the first column whose
  \<open>name\<close> is strictly equal to \<open>v\<close>, and \<open>undefined\<close> (here \<open>None\<close>) when no column
  matches.
\<close>

definition findWhere_name :: "column list \<Rightarrow> jsval \<Rightarrow> column option" where
  "findWhere_name cs v = find (\<lambda>c. JStr (name c) = v) cs"

text \<open>
  The default of \<open>map.type\<close>. \<open>hasLatitudeAndLongitudeColumns\<close> is imported from
  \<open>metabase/lib/schema_metadata\<close>, another module: the model takes it as a parameter. The parameter pattern \<open>[{ card, data: { cols } }]\<close> reads the first
  element of the series, so an empty series raises a TypeError.
\<close>

fun map_type_getDefault :: "(column list \<Rightarrow> bool) \<Rightarrow> series \<Rightarrow> settings \<Rightarrow> error + string" where
  "map_type_getDefault hasLatitudeAndLongitudeColumns [] settings = Inl TypeError"
| "map_type_getDefault hasLatitudeAndLongitudeColumns (s # rest) settings =
     (if display (card' s) = ''state'' \<or> display (card' s) = ''country'' then Inr ''region''
      else if display (card' s) = ''pin_map'' then Inr ''pin''
      else if hasLatitudeAndLongitudeColumns (cols (data s)) then
        (let latitudeColumn = findWhere_name (cols (data s)) (js_get settings ''map.latitude_column'');
             longitudeColumn = findWhere_name (cols (data s)) (js_get settings ''map.longitude_column'')
         in if (case (latitudeColumn, longitudeColumn) of
                  (Some a, Some b) \<Rightarrow> truthy (binning_info a) \<and> truthy (binning_info b)
                | _ \<Rightarrow> False)
            then Inr ''grid''
            else if truthy (js_get settings ''map.metric_column'') then Inr ''heat''
            else Inr ''pin'')
      else Inr ''region'')"

text \<open>
  The default of \<open>map.pin_type\<close>. \<open>series[0].data.rows.length\<close> is read only when
  \<open>map.type\<close> is neither heat nor grid; on an empty series that read raises a TypeError.
\<close>

definition map_pin_type_getDefault :: "series \<Rightarrow> settings \<Rightarrow> error + string" where
  "map_pin_type_getDefault series vizSettings =
     (if js_get vizSettings ''map.type'' = JStr ''heat'' then Inr ''heat''
      else if js_get vizSettings ''map.type'' = JStr ''grid'' then Inr ''grid''
      else (case series of
              [] \<Rightarrow> Inl TypeError
            | s # rest \<Rightarrow>
                if length (rows (data s)) \<ge> 1000 then Inr ''tiles'' else Inr ''markers''))"

section \<open>The settings schema: visibility\<close>

text \<open>
  \<open>Map.settings[key].getHidden\<close>, for every key of the schema; \<open>None\<close> for a key
  that has no \<open>getHidden\<close> (\<open>map.type\<close>, \<open>map.zoom\<close>, \<open>map.center_latitude\<close>,
  \<open>map.center_longitude\<close>) or is not in the schema. Where a setting spreads
  \<open>fieldSetting\<close>, \<open>metricSetting\<close> or \<open>dimensionSetting\<close>, its own \<open>getHidden\<close>
  comes after the spread and so is the one in force.
\<close>

definition getHidden :: "string \<Rightarrow> (series \<Rightarrow> settings \<Rightarrow> bool) option" where
  "getHidden key =
     (if key = ''map.pin_type'' then
        Some (\<lambda>series vizSettings. \<not> Set_has PIN_MAP_TYPES (js_get vizSettings ''map.type''))
      else if key = ''map.latitude_column'' then
        Some (\<lambda>series vizSettings. \<not> Set_has PIN_MAP_TYPES (js_get vizSettings ''map.type''))
      else if key = ''map.longitude_column'' then
        Some (\<lambda>series vizSettings. \<not> Set_has PIN_MAP_TYPES (js_get vizSettings ''map.type''))
      else if key = ''map.metric_column'' then
        Some (\<lambda>series vizSettings.
          \<not> Set_has PIN_MAP_TYPES (js_get vizSettings ''map.type'')
          \<or> (js_get vizSettings ''map.pin_type'' \<noteq> JStr ''heat''
              \<and> js_get vizSettings ''map.pin_type'' \<noteq> JStr ''grid''))
      else if key = ''map.region'' then
        Some (\<lambda>series vizSettings. js_get vizSettings ''map.type'' \<noteq> JStr ''region'')
      else if key = ''map.metric'' then
        Some (\<lambda>series vizSettings. js_get vizSettings ''map.type'' \<noteq> JStr ''region'')
      else if key = ''map.dimension'' then
        Some (\<lambda>series vizSettings. js_get vizSettings ''map.type'' \<noteq> JStr ''region'')
      else if key = ''map.heat.radius'' then
        Some (\<lambda>series vizSettings. js_get vizSettings ''map.type'' \<noteq> JStr ''heat'')
      else if key = ''map.heat.blur'' then
        Some (\<lambda>series vizSettings. js_get vizSettings ''map.type'' \<noteq> JStr ''heat'')
      else if key = ''map.heat.min-opacity'' then
        Some (\<lambda>series vizSettings. js_get vizSettings ''map.type'' \<noteq> JStr ''heat'')
      else if key = ''map.heat.max-zoom'' then
        Some (\<lambda>series vizSettings. js_get vizSettings ''map.type'' \<noteq> JStr ''heat'')
      else None)"

section \<open>The Map component\<close>

text \<open>
  The props the two components read. \<open>render\<close> returns a React element, the component
  to mount with the props it is given, or nothing.
\<close>

record props =
  settings :: settings
  series :: series
  width :: jsval
  height :: jsval
  points :: jsval
  max_p :: jsval

datatype component = PinMap | ChoroplethMap

record element =
  el_type :: component
  el_props :: props

text \<open>
  \<open>isSameSeries\<close> is imported from \<open>metabase/visualizations/lib/utils\<close>, another
  module: \<open>shouldComponentUpdate\<close> takes it as a parameter. The first
  props are \<open>this.props\<close>, the second \<open>nextProps\<close>.
\<close>

definition shouldComponentUpdate :: "(series \<Rightarrow> series \<Rightarrow> bool) \<Rightarrow> props \<Rightarrow> props \<Rightarrow> bool" where
  "shouldComponentUpdate isSameSeries this_props nextProps =
     (let sameSize = (strict_eq (width this_props) (width nextProps)
                      \<and> strict_eq (height this_props) (height nextProps));
          sameSeries = isSameSeries (series this_props) (series nextProps)
      in \<not> (sameSize \<and> sameSeries))"

definition render :: "props \<Rightarrow> element option" where
  "render this_props =
     (let map_type = js_get (settings this_props) ''map.type''
      in if Set_has PIN_MAP_TYPES map_type then
           Some \<lparr>el_type = PinMap, el_props = this_props\<rparr>
         else if map_type = JStr ''region'' then
           Some \<lparr>el_type = ChoroplethMap, el_props = this_props\<rparr>
         else None)"

section \<open>LeafletHeatMap.componentDidUpdate\<close>

text \<open>
  The heat layer belongs to the mapping library. The model records the calls the
  component makes on it, in order, and what the component hands to \<open>console.error\<close> and
  to the \<open>onRenderError\<close> callback. The library is a parameter: given the calls the layer
  has received so far and the next call, it says whether that call raises, and what.
\<close>

record heat_options =
  max_o :: jsval
  maxZoom :: jsval
  minOpacity :: jsval
  radius :: jsval
  blur :: jsval

datatype heat_call = SetOptions heat_options | SetLatLngs jsval

record world =
  heat_calls :: "heat_call list"
  console_errors :: "jsval list"
  render_errors :: "jsval list"

type_synonym heat_library = "heat_call list \<Rightarrow> heat_call \<Rightarrow> jsval option"

definition heatLayer_call :: "heat_library \<Rightarrow> heat_call \<Rightarrow> world \<Rightarrow> jsval option \<times> world" where
  "heatLayer_call lib c w = (lib (heat_calls w) c, w\<lparr>heat_calls := heat_calls w @ [c]\<rparr>)"

text \<open>
  The props of the heat map: those above and the \<open>onRenderError\<close> callback. The callback
  is \<open>None\<close> when the prop is absent; when it is there, it says for each argument what
  the call raises, if anything.
\<close>

record heat_props = props +
  onRenderError :: "(jsval \<Rightarrow> error option) option"

text \<open>The object literal handed to \<open>heatLayer.setOptions\<close>.\<close>

definition heat_options_of :: "'a props_scheme \<Rightarrow> heat_options" where
  "heat_options_of this_props =
     \<lparr>max_o = max_p this_props,
      maxZoom = js_get (settings this_props) ''map.heat.max-zoom'',
      minOpacity = js_get (settings this_props) ''map.heat.min-opacity'',
      radius = js_get (settings this_props) ''map.heat.radius'',
      blur = js_get (settings this_props) ''map.heat.blur''\<rparr>"

text \<open>The body of the \<open>try\<close> block: \<open>setOptions\<close>, then \<open>setLatLngs\<close> unless the first
  call raised.\<close>

definition try_block :: "heat_library \<Rightarrow> 'a props_scheme \<Rightarrow> world \<Rightarrow> jsval option \<times> world" where
  "try_block lib this_props w =
     (case heatLayer_call lib (SetOptions (heat_options_of this_props)) w of
        (Some err, w1) \<Rightarrow> (Some err, w1)
      | (None, w1) \<Rightarrow> heatLayer_call lib (SetLatLngs (points this_props)) w1)"

text \<open>\<open>err.message\<close>: reading a property of \<open>undefined\<close> or \<open>null\<close> raises a TypeError;
  an object has the property or not; no other value has a \<open>message\<close>.\<close>

fun js_message :: "jsval \<Rightarrow> error + jsval" where
  "js_message JUndefined = Inl TypeError"
| "js_message JNull = Inl TypeError"
| "js_message (JObj r ps) = Inr (case map_of ps ''message'' of None \<Rightarrow> JUndefined | Some m \<Rightarrow> m)"
| "js_message v = Inr JUndefined"

text \<open>
  The \<open>catch\<close> clause: \<open>console.error(err); this.props.onRenderError(err.message || err)\<close>.
  The argument is evaluated before the call, so reading the message of \<open>null\<close> raises
  before anything is called; calling a callback that is not there raises a TypeError; a
  callback that is there receives the argument and may itself raise. Whatever is raised
  here escapes: nothing encloses the \<open>catch\<close> clause.
\<close>

definition catch_clause :: "heat_props \<Rightarrow> jsval \<Rightarrow> world \<Rightarrow> error option \<times> world" where
  "catch_clause this_props err w =
     (let w1 = w\<lparr>console_errors := console_errors w @ [err]\<rparr>
      in case js_message err of
           Inl e \<Rightarrow> (Some e, w1)
         | Inr m \<Rightarrow>
             (let arg = (if truthy m then m else err)
              in case onRenderError this_props of
                   None \<Rightarrow> (Some TypeError, w1)
                 | Some callback \<Rightarrow>
                     (callback arg, w1\<lparr>render_errors := render_errors w1 @ [arg]\<rparr>)))"

text \<open>
  \<open>componentDidUpdate(prevProps, prevState)\<close>. The inherited
  \<open>super.componentDidUpdate(prevProps, prevState)\<close> is \<open>LeafletMap\<close>'s, defined in
  another module: the parameter \<open>super_componentDidUpdate\<close> stands for that call. The
  result is the exception that escapes, if any, and the world the call leaves.
\<close>

definition componentDidUpdate ::
  "(world \<Rightarrow> error option \<times> world) \<Rightarrow> heat_library \<Rightarrow> heat_props \<Rightarrow> world \<Rightarrow> error option \<times> world" where
  "componentDidUpdate super_componentDidUpdate lib this_props w =
     (case super_componentDidUpdate w of
        (Some e, w0) \<Rightarrow> (Some e, w0)
      | (None, w0) \<Rightarrow>
          (case try_block lib this_props w0 of
             (None, w1) \<Rightarrow> (None, w1)
           | (Some err, w1) \<Rightarrow> catch_clause this_props err w1))"

section \<open>Properties of Map.checkRenderable\<close>

lemma Set_has_PIN_MAP_TYPES:
  "Set_has PIN_MAP_TYPES v = (v = JStr ''pin'' \<or> v = JStr ''heat'' \<or> v = JStr ''grid'')"
  by (auto simp: Set_has_def PIN_MAP_TYPES_def)

text \<open>
  C1, as the code has it: for every non-empty series and every settings object,
  checkRenderable throws the chart-settings error "Please select longitude and latitude
  columns in the chart settings." when map.type is pin, heat or grid and the longitude or
  the latitude column is falsy, throws "Please select region and metric columns in the
  chart settings." when map.type is region and the dimension or the metric is falsy, and
  returns normally in every other case; so it throws a chart-settings error exactly when
  required columns are unselected. For the empty series it raises a TypeError, whatever
  the settings.
\<close>

theorem checkRenderable_required_columns:
  "ss \<noteq> [] \<Longrightarrow>
     checkRenderable ss st =
       (if js_get st ''map.type'' \<in> {JStr ''pin'', JStr ''heat'', JStr ''grid''}
           \<and> (\<not> truthy (js_get st ''map.longitude_column'')
                \<or> \<not> truthy (js_get st ''map.latitude_column''))
        then Inl (ChartSettingsError
               ''Please select longitude and latitude columns in the chart settings.'' ''Data'')
        else if js_get st ''map.type'' = JStr ''region''
           \<and> (\<not> truthy (js_get st ''map.dimension'')
                \<or> \<not> truthy (js_get st ''map.metric''))
        then Inl (ChartSettingsError
               ''Please select region and metric columns in the chart settings.'' ''Data'')
        else Inr ())
     \<and> ((\<exists>m sec. checkRenderable ss st = Inl (ChartSettingsError m sec)) =
          ((js_get st ''map.type'' \<in> {JStr ''pin'', JStr ''heat'', JStr ''grid''}
              \<and> (\<not> truthy (js_get st ''map.longitude_column'')
                   \<or> \<not> truthy (js_get st ''map.latitude_column'')))
           \<or> (js_get st ''map.type'' = JStr ''region''
              \<and> (\<not> truthy (js_get st ''map.dimension'')
                   \<or> \<not> truthy (js_get st ''map.metric'')))))"
  by (cases ss) (auto simp: Set_has_PIN_MAP_TYPES)

theorem checkRenderable_required_columns_witness:
  "checkRenderable
     [\<lparr>card' = \<lparr>display = ''map''\<rparr>, data = \<lparr>cols = [], rows = []\<rparr>\<rparr>]
     [''map.type'' \<mapsto> JStr ''pin'', ''map.latitude_column'' \<mapsto> JStr ''lat'']
   = Inl (ChartSettingsError
       ''Please select longitude and latitude columns in the chart settings.'' ''Data'')"
  using checkRenderable_required_columns
    [of "[\<lparr>card' = \<lparr>display = ''map''\<rparr>, data = \<lparr>cols = [], rows = []\<rparr>\<rparr>]"
        "[''map.type'' \<mapsto> JStr ''pin'', ''map.latitude_column'' \<mapsto> JStr ''lat'']"]
  by (simp add: js_get_def)

text \<open>
  The claim as first stated, for every series, fails on the empty series: with map.type
  region and both the dimension and the metric selected nothing is unselected, yet the
  call does not return normally.
\<close>

theorem checkRenderable_empty_series_counterexample:
  "checkRenderable []
     [''map.type'' \<mapsto> JStr ''region'', ''map.dimension'' \<mapsto> JStr ''state'',
      ''map.metric'' \<mapsto> JStr ''count'']
   = Inl TypeError"
  by simp

text \<open>
  C10, as the code has it: checkRenderable never requires a metric column. For every
  non-empty series, when map.type is heat or grid and the latitude and longitude columns
  are selected it returns normally, and when map.type is none of pin, heat, grid and
  region it returns normally whatever else is missing; this holds whether
  map.metric_column is set or absent, since for every series, empty or not, the outcome
  is the same whatever map.metric_column is.
\<close>

theorem checkRenderable_no_metric_column:
  "(ss \<noteq> [] \<longrightarrow>
      ((js_get st ''map.type'' = JStr ''heat'' \<or> js_get st ''map.type'' = JStr ''grid'')
         \<and> truthy (js_get st ''map.latitude_column'')
         \<and> truthy (js_get st ''map.longitude_column'')
         \<longrightarrow> checkRenderable ss st = Inr ()
             \<and> checkRenderable ss (st(''map.metric_column'' := None)) = Inr ())
      \<and> (js_get st ''map.type'' \<notin> {JStr ''pin'', JStr ''heat'', JStr ''grid'', JStr ''region''}
         \<longrightarrow> checkRenderable ss st = Inr ()))
   \<and> (\<forall>v. checkRenderable ss (st(''map.metric_column'' := v)) = checkRenderable ss st)"
  by (cases ss) (auto simp: Set_has_PIN_MAP_TYPES js_get_def)

theorem checkRenderable_no_metric_column_witness:
  "checkRenderable
     [\<lparr>card' = \<lparr>display = ''map''\<rparr>, data = \<lparr>cols = [], rows = []\<rparr>\<rparr>]
     [''map.type'' \<mapsto> JStr ''heat'', ''map.latitude_column'' \<mapsto> JStr ''lat'',
      ''map.longitude_column'' \<mapsto> JStr ''lon'']
   = Inr ()"
  using checkRenderable_no_metric_column
    [of "[\<lparr>card' = \<lparr>display = ''map''\<rparr>, data = \<lparr>cols = [], rows = []\<rparr>\<rparr>]"
        "[''map.type'' \<mapsto> JStr ''heat'', ''map.latitude_column'' \<mapsto> JStr ''lat'',
          ''map.longitude_column'' \<mapsto> JStr ''lon'']"]
  by (simp add: js_get_def)

text \<open>
  The claim as first stated, for every series, fails on the empty series: map.type is
  heat and both coordinate columns are selected, yet the call does not return normally.
\<close>

theorem checkRenderable_heat_empty_series_counterexample:
  "checkRenderable []
     [''map.type'' \<mapsto> JStr ''heat'', ''map.latitude_column'' \<mapsto> JStr ''lat'',
      ''map.longitude_column'' \<mapsto> JStr ''lon'']
   = Inl TypeError"
  by simp

section \<open>Properties of the default values\<close>

text \<open>
  C2, as the code has it: for every non-empty series, with its first card and columns,
  and every settings object, the default of map.type is region when card.display is state
  or country, pin when it is pin_map, and otherwise: when the columns have latitude and
  longitude, grid if the column named by map.latitude_column and the one named by
  map.longitude_column both exist and carry binning_info, else heat if map.metric_column
  is set, else pin; and region when the columns lack latitude and longitude. On an empty
  series no default is chosen: reading the first element raises a TypeError.
\<close>

theorem map_type_getDefault_algorithm:
  "(let d = display (card' s);
        cs = cols (data s);
        binned = (\<exists>a b. findWhere_name cs (js_get st ''map.latitude_column'') = Some a
                    \<and> findWhere_name cs (js_get st ''map.longitude_column'') = Some b
                    \<and> truthy (binning_info a) \<and> truthy (binning_info b));
        r = map_type_getDefault hasLatLon (s # rest) st
    in (d = ''state'' \<or> d = ''country'' \<longrightarrow> r = Inr ''region'')
     \<and> (d = ''pin_map'' \<longrightarrow> r = Inr ''pin'')
     \<and> (d \<notin> {''state'', ''country'', ''pin_map''} \<and> hasLatLon cs \<longrightarrow>
          (binned \<longrightarrow> r = Inr ''grid'')
        \<and> (\<not> binned \<and> truthy (js_get st ''map.metric_column'') \<longrightarrow> r = Inr ''heat'')
        \<and> (\<not> binned \<and> \<not> truthy (js_get st ''map.metric_column'') \<longrightarrow> r = Inr ''pin''))
     \<and> (d \<notin> {''state'', ''country'', ''pin_map''} \<and> \<not> hasLatLon cs \<longrightarrow> r = Inr ''region''))
   \<and> map_type_getDefault hasLatLon [] st = Inl TypeError"
  by (auto simp: Let_def split: option.splits)

theorem map_type_getDefault_algorithm_witness:
  "map_type_getDefault (\<lambda>cs. True)
     [\<lparr>card' = \<lparr>display = ''table''\<rparr>,
       data = \<lparr>cols = [\<lparr>name = ''lat'', binning_info = JObj 1 []\<rparr>,
                        \<lparr>name = ''lon'', binning_info = JObj 2 []\<rparr>],
               rows = []\<rparr>\<rparr>]
     [''map.latitude_column'' \<mapsto> JStr ''lat'', ''map.longitude_column'' \<mapsto> JStr ''lon'']
   = Inr ''grid''"
  using map_type_getDefault_algorithm
    [of "\<lparr>card' = \<lparr>display = ''table''\<rparr>,
          data = \<lparr>cols = [\<lparr>name = ''lat'', binning_info = JObj 1 []\<rparr>,
                           \<lparr>name = ''lon'', binning_info = JObj 2 []\<rparr>],
                  rows = []\<rparr>\<rparr>"
        "[''map.latitude_column'' \<mapsto> JStr ''lat'', ''map.longitude_column'' \<mapsto> JStr ''lon'']"
        "\<lambda>cs. True" "[]"]
  by (simp add: js_get_def findWhere_name_def)

text \<open>
  The claim as first stated, for every series, fails on the empty series: there is no
  card whose display is state, country or pin_map and there are no latitude and longitude
  columns, so the stated algorithm would end in region; the code raises a TypeError.
\<close>

theorem map_type_getDefault_empty_series_counterexample:
  "map_type_getDefault (\<lambda>cs. False) [] Map.empty = Inl TypeError"
  by simp

text \<open>
  C6, as the code has it: for every series and settings object the default of
  map.pin_type is heat when map.type is heat; otherwise grid when map.type is grid;
  otherwise, on a non-empty series, tiles when the first series has at least 1000 data
  rows and markers when it has fewer. On an empty series with map.type neither heat nor
  grid no default is chosen: reading the first element raises a TypeError.
\<close>

theorem map_pin_type_getDefault_cases:
  "(js_get st ''map.type'' = JStr ''heat'' \<longrightarrow> map_pin_type_getDefault ss st = Inr ''heat'')
   \<and> (js_get st ''map.type'' \<noteq> JStr ''heat'' \<and> js_get st ''map.type'' = JStr ''grid''
        \<longrightarrow> map_pin_type_getDefault ss st = Inr ''grid'')
   \<and> (js_get st ''map.type'' \<noteq> JStr ''heat'' \<and> js_get st ''map.type'' \<noteq> JStr ''grid''
        \<and> ss = s # rest \<and> 1000 \<le> length (rows (data s))
        \<longrightarrow> map_pin_type_getDefault ss st = Inr ''tiles'')
   \<and> (js_get st ''map.type'' \<noteq> JStr ''heat'' \<and> js_get st ''map.type'' \<noteq> JStr ''grid''
        \<and> ss = s # rest \<and> length (rows (data s)) < 1000
        \<longrightarrow> map_pin_type_getDefault ss st = Inr ''markers'')
   \<and> (js_get st ''map.type'' \<noteq> JStr ''heat'' \<and> js_get st ''map.type'' \<noteq> JStr ''grid''
        \<and> ss = []
        \<longrightarrow> map_pin_type_getDefault ss st = Inl TypeError)"
  by (auto simp: map_pin_type_getDefault_def)

theorem map_pin_type_getDefault_cases_witness:
  "map_pin_type_getDefault
     [\<lparr>card' = \<lparr>display = ''map''\<rparr>, data = \<lparr>cols = [], rows = replicate 1000 []\<rparr>\<rparr>]
     [''map.type'' \<mapsto> JStr ''pin'']
   = Inr ''tiles''"
  using map_pin_type_getDefault_cases
    [of "[''map.type'' \<mapsto> JStr ''pin'']"
        "[\<lparr>card' = \<lparr>display = ''map''\<rparr>, data = \<lparr>cols = [], rows = replicate 1000 []\<rparr>\<rparr>]"
        "\<lparr>card' = \<lparr>display = ''map''\<rparr>, data = \<lparr>cols = [], rows = replicate 1000 []\<rparr>\<rparr>"
        "[]"]
  by (simp add: js_get_def)

text \<open>
  The claim as first stated, for every series, fails on the empty series: map.type is
  pin and no first series has 1000 rows, so the stated default would be markers; the code
  raises a TypeError.
\<close>

theorem map_pin_type_getDefault_empty_series_counterexample:
  "map_pin_type_getDefault [] [''map.type'' \<mapsto> JStr ''pin''] = Inl TypeError"
  by (simp add: map_pin_type_getDefault_def js_get_def)

section \<open>Properties of the visibility rules\<close>

text \<open>
  C7: for every series and settings object, map.pin_type, map.latitude_column and
  map.longitude_column are hidden exactly when map.type is not one of pin, heat, grid;
  map.region, map.metric and map.dimension are hidden exactly when map.type is not
  region; map.heat.radius, map.heat.blur, map.heat.min-opacity and map.heat.max-zoom are
  hidden exactly when map.type is not heat.
\<close>

theorem getHidden_rules:
  "map_option (\<lambda>f. f ss st) (getHidden ''map.pin_type'')
     = Some (js_get st ''map.type'' \<notin> {JStr ''pin'', JStr ''heat'', JStr ''grid''})
   \<and> map_option (\<lambda>f. f ss st) (getHidden ''map.latitude_column'')
     = Some (js_get st ''map.type'' \<notin> {JStr ''pin'', JStr ''heat'', JStr ''grid''})
   \<and> map_option (\<lambda>f. f ss st) (getHidden ''map.longitude_column'')
     = Some (js_get st ''map.type'' \<notin> {JStr ''pin'', JStr ''heat'', JStr ''grid''})
   \<and> map_option (\<lambda>f. f ss st) (getHidden ''map.region'')
     = Some (js_get st ''map.type'' \<noteq> JStr ''region'')
   \<and> map_option (\<lambda>f. f ss st) (getHidden ''map.metric'')
     = Some (js_get st ''map.type'' \<noteq> JStr ''region'')
   \<and> map_option (\<lambda>f. f ss st) (getHidden ''map.dimension'')
     = Some (js_get st ''map.type'' \<noteq> JStr ''region'')
   \<and> map_option (\<lambda>f. f ss st) (getHidden ''map.heat.radius'')
     = Some (js_get st ''map.type'' \<noteq> JStr ''heat'')
   \<and> map_option (\<lambda>f. f ss st) (getHidden ''map.heat.blur'')
     = Some (js_get st ''map.type'' \<noteq> JStr ''heat'')
   \<and> map_option (\<lambda>f. f ss st) (getHidden ''map.heat.min-opacity'')
     = Some (js_get st ''map.type'' \<noteq> JStr ''heat'')
   \<and> map_option (\<lambda>f. f ss st) (getHidden ''map.heat.max-zoom'')
     = Some (js_get st ''map.type'' \<noteq> JStr ''heat'')"
  by (simp add: getHidden_def Set_has_PIN_MAP_TYPES)

theorem getHidden_rules_witness:
  "map_option (\<lambda>f. f [] [''map.type'' \<mapsto> JStr ''heat'']) (getHidden ''map.pin_type'') = Some False
   \<and> map_option (\<lambda>f. f [] [''map.type'' \<mapsto> JStr ''heat'']) (getHidden ''map.region'') = Some True
   \<and> map_option (\<lambda>f. f [] [''map.type'' \<mapsto> JStr ''heat'']) (getHidden ''map.heat.blur'') = Some False"
  using getHidden_rules [of "[]" "[''map.type'' \<mapsto> JStr ''heat'']"]
  by (simp add: js_get_def)

section \<open>Properties of the Map component\<close>

lemma render_el_type:
  "map_option el_type (render p) =
     (if Set_has PIN_MAP_TYPES (js_get (settings p) ''map.type'') then Some PinMap
      else if js_get (settings p) ''map.type'' = JStr ''region'' then Some ChoroplethMap
      else None)"
  by (simp add: render_def Let_def)

text \<open>
  C3, as the code has it: the component chooses, based on map.type, between two
  components or rendering nothing. For all props, render returns a PinMap element when
  settings["map.type"] is pin, heat or grid, a ChoroplethMap element when it is region,
  and no element otherwise; the element carries the component's own props unchanged. So
  which component is mounted is determined by settings["map.type"] alone, and the render
  output is determined by it together with the props.
\<close>

theorem render_selects_by_map_type:
  "render p =
     (if js_get (settings p) ''map.type'' \<in> {JStr ''pin'', JStr ''heat'', JStr ''grid''}
      then Some \<lparr>el_type = PinMap, el_props = p\<rparr>
      else if js_get (settings p) ''map.type'' = JStr ''region''
      then Some \<lparr>el_type = ChoroplethMap, el_props = p\<rparr>
      else None)
   \<and> (js_get (settings p) ''map.type'' = js_get (settings q) ''map.type''
        \<longrightarrow> map_option el_type (render p) = map_option el_type (render q))"
  by (simp add: render_def Let_def Set_has_PIN_MAP_TYPES)

theorem render_selects_by_map_type_witness:
  "render \<lparr>settings = [''map.type'' \<mapsto> JStr ''grid''], series = [], width = JNum 400,
            height = JNum 300, points = JUndefined, max_p = JUndefined\<rparr>
     = Some \<lparr>el_type = PinMap,
             el_props = \<lparr>settings = [''map.type'' \<mapsto> JStr ''grid''], series = [], width = JNum 400,
            height = JNum 300, points = JUndefined, max_p = JUndefined\<rparr>\<rparr>
   \<and> map_option el_type (render \<lparr>settings = [''map.type'' \<mapsto> JStr ''grid''], series = [], width = JNum 400,
            height = JNum 300, points = JUndefined, max_p = JUndefined\<rparr>)
     = map_option el_type (render \<lparr>settings = [''map.type'' \<mapsto> JStr ''grid''], series = [], width = JNum 500,
            height = JNum 300, points = JUndefined, max_p = JUndefined\<rparr>)"
  using render_selects_by_map_type
    [of "\<lparr>settings = [''map.type'' \<mapsto> JStr ''grid''], series = [], width = JNum 400,
            height = JNum 300, points = JUndefined, max_p = JUndefined\<rparr>"
        "\<lparr>settings = [''map.type'' \<mapsto> JStr ''grid''], series = [], width = JNum 500,
            height = JNum 300, points = JUndefined, max_p = JUndefined\<rparr>"]
  by (simp add: js_get_def render_def Set_has_PIN_MAP_TYPES)

text \<open>
  The claim as first stated, the render output is determined solely by
  settings["map.type"], fails for two props with the same map.type and a different
  width: each element carries its own props, so the two outputs differ. Both mount the
  same component, PinMap, one of the two the code ever mounts.
\<close>

theorem render_output_counterexample:
  "js_get (settings \<lparr>settings = [''map.type'' \<mapsto> JStr ''grid''], series = [], width = JNum 400,
            height = JNum 300, points = JUndefined, max_p = JUndefined\<rparr>) ''map.type''
     = js_get (settings \<lparr>settings = [''map.type'' \<mapsto> JStr ''grid''], series = [], width = JNum 500,
            height = JNum 300, points = JUndefined, max_p = JUndefined\<rparr>) ''map.type''
   \<and> render \<lparr>settings = [''map.type'' \<mapsto> JStr ''grid''], series = [], width = JNum 400,
            height = JNum 300, points = JUndefined, max_p = JUndefined\<rparr>
     \<noteq> render \<lparr>settings = [''map.type'' \<mapsto> JStr ''grid''], series = [], width = JNum 500,
            height = JNum 300, points = JUndefined, max_p = JUndefined\<rparr>"
  by (simp add: render_def js_get_def Set_has_PIN_MAP_TYPES)

text \<open>
  C9: for all props whose settings["map.type"] is none of pin, heat, grid and region
  (undefined or an unknown string, say), render returns no element.
\<close>

theorem render_unknown_type_nothing:
  "js_get (settings p) ''map.type'' \<notin> {JStr ''pin'', JStr ''heat'', JStr ''grid'', JStr ''region''}
   \<Longrightarrow> render p = None"
  by (simp add: render_def Set_has_PIN_MAP_TYPES)

theorem render_unknown_type_nothing_witness:
  "render \<lparr>settings = Map.empty, series = [], width = JNum 400, height = JNum 300,
            points = JUndefined, max_p = JUndefined\<rparr> = None
   \<and> render \<lparr>settings = [''map.type'' \<mapsto> JStr ''bubble''], series = [], width = JNum 400,
              height = JNum 300, points = JUndefined, max_p = JUndefined\<rparr> = None"
  using render_unknown_type_nothing
      [of "\<lparr>settings = Map.empty, series = [], width = JNum 400, height = JNum 300,
            points = JUndefined, max_p = JUndefined\<rparr>"]
    render_unknown_type_nothing
      [of "\<lparr>settings = [''map.type'' \<mapsto> JStr ''bubble''], series = [], width = JNum 400,
            height = JNum 300, points = JUndefined, max_p = JUndefined\<rparr>"]
  by (simp add: js_get_def)

text \<open>
  Whatever \<open>isSameSeries\<close> is, when it judges the two series the same and the size is
  unchanged there is no update, whatever the two settings objects are.
\<close>

lemma shouldComponentUpdate_same_size_same_series:
  "strict_eq (width p) (width q) \<Longrightarrow> strict_eq (height p) (height q)
   \<Longrightarrow> same (series p) (series q) \<Longrightarrow> \<not> shouldComponentUpdate same p q"
  by (simp add: shouldComponentUpdate_def)

text \<open>
  C4, as the code has it: for every pair of props, shouldComponentUpdate returns true
  exactly when the width or the height of the next props differs from the current one or
  isSameSeries judges the two series different; the settings prop is never compared, so
  replacing the settings of either props changes nothing.
\<close>

theorem shouldComponentUpdate_size_or_series:
  "shouldComponentUpdate same p q =
     (\<not> strict_eq (width p) (width q) \<or> \<not> strict_eq (height p) (height q)
      \<or> \<not> same (series p) (series q))
   \<and> (\<forall>a b. shouldComponentUpdate same (p\<lparr>settings := a\<rparr>) (q\<lparr>settings := b\<rparr>)
            = shouldComponentUpdate same p q)"
  by (auto simp: shouldComponentUpdate_def)

theorem shouldComponentUpdate_size_or_series_witness:
  "shouldComponentUpdate (\<lambda>a b. a = b)
     \<lparr>settings = [''map.type'' \<mapsto> JStr ''pin''], series = [], width = JNum 400,
        height = JNum 300, points = JUndefined, max_p = JUndefined\<rparr>
     \<lparr>settings = [''map.type'' \<mapsto> JStr ''pin''], series = [], width = JNum 500,
        height = JNum 300, points = JUndefined, max_p = JUndefined\<rparr>"
  using shouldComponentUpdate_size_or_series
    [of "\<lambda>a b. a = b"
        "\<lparr>settings = [''map.type'' \<mapsto> JStr ''pin''], series = [], width = JNum 400,
        height = JNum 300, points = JUndefined, max_p = JUndefined\<rparr>"
        "\<lparr>settings = [''map.type'' \<mapsto> JStr ''pin''], series = [], width = JNum 500,
        height = JNum 300, points = JUndefined, max_p = JUndefined\<rparr>"]
  by simp

text \<open>
  The claim as first stated fails when only the settings change: the two props below
  have the same size and the same series and differ in settings["map.type"], so that
  render mounts a different component for each; with a comparison that judges a series
  the same as itself, shouldComponentUpdate returns false.
\<close>

theorem shouldComponentUpdate_settings_counterexample:
  "settings \<lparr>settings = [''map.type'' \<mapsto> JStr ''pin''], series = [], width = JNum 400,
        height = JNum 300, points = JUndefined, max_p = JUndefined\<rparr>
     \<noteq> settings \<lparr>settings = [''map.type'' \<mapsto> JStr ''region''], series = [], width = JNum 400,
        height = JNum 300, points = JUndefined, max_p = JUndefined\<rparr>
   \<and> map_option el_type (render \<lparr>settings = [''map.type'' \<mapsto> JStr ''pin''], series = [], width = JNum 400,
        height = JNum 300, points = JUndefined, max_p = JUndefined\<rparr>)
     \<noteq> map_option el_type (render \<lparr>settings = [''map.type'' \<mapsto> JStr ''region''], series = [], width = JNum 400,
        height = JNum 300, points = JUndefined, max_p = JUndefined\<rparr>)
   \<and> \<not> shouldComponentUpdate (\<lambda>a b. a = b)
          \<lparr>settings = [''map.type'' \<mapsto> JStr ''pin''], series = [], width = JNum 400,
        height = JNum 300, points = JUndefined, max_p = JUndefined\<rparr>
          \<lparr>settings = [''map.type'' \<mapsto> JStr ''region''], series = [], width = JNum 400,
        height = JNum 300, points = JUndefined, max_p = JUndefined\<rparr>"
proof (intro conjI)
  have "[''map.type'' \<mapsto> JStr ''pin''] \<noteq> [''map.type'' \<mapsto> JStr ''region'']"
    by (auto dest: map_upd_eqD1)
  then show "settings \<lparr>settings = [''map.type'' \<mapsto> JStr ''pin''], series = [], width = JNum 400,
        height = JNum 300, points = JUndefined, max_p = JUndefined\<rparr>
     \<noteq> settings \<lparr>settings = [''map.type'' \<mapsto> JStr ''region''], series = [], width = JNum 400,
        height = JNum 300, points = JUndefined, max_p = JUndefined\<rparr>"
    by simp
next
  show "map_option el_type (render \<lparr>settings = [''map.type'' \<mapsto> JStr ''pin''], series = [], width = JNum 400,
        height = JNum 300, points = JUndefined, max_p = JUndefined\<rparr>)
     \<noteq> map_option el_type (render \<lparr>settings = [''map.type'' \<mapsto> JStr ''region''], series = [], width = JNum 400,
        height = JNum 300, points = JUndefined, max_p = JUndefined\<rparr>)"
    by (simp add: render_el_type js_get_def Set_has_PIN_MAP_TYPES)
next
  show "\<not> shouldComponentUpdate (\<lambda>a b. a = b)
          \<lparr>settings = [''map.type'' \<mapsto> JStr ''pin''], series = [], width = JNum 400,
        height = JNum 300, points = JUndefined, max_p = JUndefined\<rparr>
          \<lparr>settings = [''map.type'' \<mapsto> JStr ''region''], series = [], width = JNum 400,
        height = JNum 300, points = JUndefined, max_p = JUndefined\<rparr>"
    by (simp add: shouldComponentUpdate_def)
qed

section \<open>Properties of LeafletHeatMap.componentDidUpdate\<close>

lemma js_message_defined:
  "err \<noteq> JUndefined \<Longrightarrow> err \<noteq> JNull \<Longrightarrow> \<exists>m. js_message err = Inr m"
  by (cases err) simp_all

lemma heat_calls_catch_clause:
  "heat_calls (snd (catch_clause p err w)) = heat_calls w"
  by (simp add: catch_clause_def Let_def split: sum.splits option.splits)

text \<open>
  C8, as the code has it: on every update in which the inherited componentDidUpdate
  returns, the heat layer's setOptions is called with exactly max = props.max, maxZoom =
  settings["map.heat.max-zoom"], minOpacity = settings["map.heat.min-opacity"], radius =
  settings["map.heat.radius"], blur = settings["map.heat.blur"]; and, when that call does
  not raise, setLatLngs is called next with exactly props.points. When setOptions raises,
  setLatLngs is not called. The heat layer receives no other call.
\<close>

theorem componentDidUpdate_forwards_props:
  "super w = (None, w0) \<Longrightarrow>
     heat_calls (snd (componentDidUpdate super lib p w)) =
       heat_calls w0 @
         SetOptions \<lparr>max_o = max_p p,
                     maxZoom = js_get (settings p) ''map.heat.max-zoom'',
                     minOpacity = js_get (settings p) ''map.heat.min-opacity'',
                     radius = js_get (settings p) ''map.heat.radius'',
                     blur = js_get (settings p) ''map.heat.blur''\<rparr>
         # (if lib (heat_calls w0)
                  (SetOptions \<lparr>max_o = max_p p,
                              maxZoom = js_get (settings p) ''map.heat.max-zoom'',
                              minOpacity = js_get (settings p) ''map.heat.min-opacity'',
                              radius = js_get (settings p) ''map.heat.radius'',
                              blur = js_get (settings p) ''map.heat.blur''\<rparr>) = None
            then [SetLatLngs (points p)] else [])"
  by (auto simp: componentDidUpdate_def try_block_def heatLayer_call_def heat_options_of_def
        heat_calls_catch_clause split: option.splits prod.splits)

theorem componentDidUpdate_forwards_props_witness:
  "heat_calls (snd (componentDidUpdate (\<lambda>w. (None, w)) (\<lambda>h c. None)
      \<lparr>settings = [''map.heat.radius'' \<mapsto> JNum 30, ''map.heat.blur'' \<mapsto> JNum 60,
                   ''map.heat.min-opacity'' \<mapsto> JNum 0, ''map.heat.max-zoom'' \<mapsto> JNum 1],
        series = [], width = JNum 400, height = JNum 300,
        points = JObj 7 [], max_p = JNum 10,
        onRenderError = Some (\<lambda>v. None)\<rparr>
      \<lparr>heat_calls = [], console_errors = [], render_errors = []\<rparr>))
   = [SetOptions \<lparr>max_o = JNum 10, maxZoom = JNum 1, minOpacity = JNum 0,
                        radius = JNum 30, blur = JNum 60\<rparr>,
      SetLatLngs (JObj 7 [])]"
  using componentDidUpdate_forwards_props
    [of "\<lambda>w. (None, w)" "\<lparr>heat_calls = [], console_errors = [], render_errors = []\<rparr>" "\<lparr>heat_calls = [], console_errors = [], render_errors = []\<rparr>" "\<lambda>h c. None"
        "\<lparr>settings = [''map.heat.radius'' \<mapsto> JNum 30, ''map.heat.blur'' \<mapsto> JNum 60,
                   ''map.heat.min-opacity'' \<mapsto> JNum 0, ''map.heat.max-zoom'' \<mapsto> JNum 1],
        series = [], width = JNum 400, height = JNum 300,
        points = JObj 7 [], max_p = JNum 10,
        onRenderError = Some (\<lambda>v. None)\<rparr>"]
  by (simp add: js_get_def)

text \<open>
  The claim as first stated, on every update, fails on an update in which setOptions
  raises: the layer gets the options and never the points.
\<close>

theorem componentDidUpdate_points_counterexample:
  "heat_calls (snd (componentDidUpdate (\<lambda>w. (None, w))
      (\<lambda>h c. case c of SetOptions opts \<Rightarrow> Some (JObj 1 [(''message'', JStr ''Invalid option'')])
                      | SetLatLngs ps \<Rightarrow> None)
      \<lparr>settings = [''map.heat.radius'' \<mapsto> JNum 30, ''map.heat.blur'' \<mapsto> JNum 60,
                   ''map.heat.min-opacity'' \<mapsto> JNum 0, ''map.heat.max-zoom'' \<mapsto> JNum 1],
        series = [], width = JNum 400, height = JNum 300,
        points = JObj 7 [], max_p = JNum 10,
        onRenderError = Some (\<lambda>v. None)\<rparr>
      \<lparr>heat_calls = [], console_errors = [], render_errors = []\<rparr>))
   = [SetOptions \<lparr>max_o = JNum 10, maxZoom = JNum 1, minOpacity = JNum 0,
                        radius = JNum 30, blur = JNum 60\<rparr>]"
  by (simp add: componentDidUpdate_def try_block_def heatLayer_call_def heat_options_of_def
        catch_clause_def js_get_def)

text \<open>
  What the catch clause does when all goes as the code expects: the callback is there and
  returns, and the raised value has properties. Then the value is logged, the callback is
  called once with its message when that is truthy and with the value itself otherwise,
  and componentDidUpdate returns normally.
\<close>

lemma componentDidUpdate_reports_render_error:
  assumes sup: "super w = (None, w0)"
    and thrown: "lib (heat_calls w0) (SetOptions (heat_options_of p)) = Some err
      \<or> (lib (heat_calls w0) (SetOptions (heat_options_of p)) = None
         \<and> lib (heat_calls w0 @ [SetOptions (heat_options_of p)]) (SetLatLngs (points p)) = Some err)"
    and nn: "err \<noteq> JUndefined" "err \<noteq> JNull"
    and cb: "onRenderError p = Some callback" "\<forall>v. callback v = None"
  shows "\<exists>m. js_message err = Inr m
     \<and> fst (componentDidUpdate super lib p w) = None
     \<and> render_errors (snd (componentDidUpdate super lib p w))
         = render_errors w0 @ [if truthy m then m else err]
     \<and> console_errors (snd (componentDidUpdate super lib p w))
         = console_errors w0 @ [err]"
proof -
  from nn obtain m where m: "js_message err = Inr m"
    using js_message_defined by blast
  from thrown obtain w1 where tb: "try_block lib p w0 = (Some err, w1)"
    and c1: "console_errors w1 = console_errors w0"
    and r1: "render_errors w1 = render_errors w0"
    by (auto simp: try_block_def heatLayer_call_def)
  have cdu: "componentDidUpdate super lib p w = catch_clause p err w1"
    using sup tb by (simp add: componentDidUpdate_def)
  have "fst (catch_clause p err w1) = None"
    using m cb by (simp add: catch_clause_def Let_def)
  moreover have "render_errors (snd (catch_clause p err w1))
      = render_errors w0 @ [if truthy m then m else err]"
    using m r1 cb by (simp add: catch_clause_def Let_def)
  moreover have "console_errors (snd (catch_clause p err w1)) = console_errors w0 @ [err]"
    using m c1 cb by (simp add: catch_clause_def Let_def)
  ultimately show ?thesis
    using m cdu by simp
qed

text \<open>
  C5 does not hold of the code when what the library raises is null. The claim says the
  raised value is caught and onRenderError is called with it (it has no message), and
  nothing escapes. In the code the catch clause reads err.message before the fallback to
  err can apply; on null that read raises a TypeError, so onRenderError is never called
  and the TypeError escapes componentDidUpdate. Below, setOptions raises null and the
  callback is there and never raises.
\<close>

theorem componentDidUpdate_raised_null_escapes:
  "componentDidUpdate (\<lambda>w. (None, w)) (\<lambda>h c. Some JNull)
      \<lparr>settings = [''map.heat.radius'' \<mapsto> JNum 30, ''map.heat.blur'' \<mapsto> JNum 60,
                   ''map.heat.min-opacity'' \<mapsto> JNum 0, ''map.heat.max-zoom'' \<mapsto> JNum 1],
        series = [], width = JNum 400, height = JNum 300,
        points = JObj 7 [], max_p = JNum 10,
        onRenderError = Some (\<lambda>v. None)\<rparr>
      \<lparr>heat_calls = [], console_errors = [], render_errors = []\<rparr>
   = (Some TypeError,
      \<lparr>heat_calls = [SetOptions \<lparr>max_o = JNum 10, maxZoom = JNum 1, minOpacity = JNum 0,
                                    radius = JNum 30, blur = JNum 60\<rparr>],
        console_errors = [JNull], render_errors = []\<rparr>)"
  by (simp add: componentDidUpdate_def try_block_def heatLayer_call_def heat_options_of_def
        catch_clause_def js_get_def)

end
